theory Spec2Isabelle
  imports Complex_Main
begin

section \<open>L0 gradient-norm image smoothing: the embedding of l0\_image\_smoothing.py\<close>

text \<open>
  Tensors are nested lists in row-major order: a rank-2 tensor of shape (H, W) is a list
  of H rows of length W, a rank-3 tensor of shape (H, W, C) a list of H rows of W pixels
  of C samples. Samples of dtype float32 and Python floats are read as reals and
  complex64 as complex numbers, so rounding is left out: the theorems below are about
  indices, shapes, comparisons and control flow. The integer kernels (int8) are
  \<open>int\<close> matrices.

  Every exception the program can raise is a value of \<open>error\<close>, named after the
  Python exception.
\<close>

datatype error = ValueError | UnboundLocalError | InvalidArgumentError | ZeroDivisionError

type_synonym 'a matrix = "'a list list"

type_synonym 'a tensor3 = "'a list list list"

subsection \<open>The library operations the program calls\<close>

text \<open>
  \<open>t.shape\<close> of a rank-2 tensor. A matrix with no row has lost its second extent;
  the program asks for the shape only of tensors with at least one row.
\<close>

definition shape2 :: "'a matrix \<Rightarrow> nat list" where
  "shape2 m = [length m, (case m of [] \<Rightarrow> 0 | row # _ \<Rightarrow> length row)]"

text \<open>
  \<open>tf.SparseTensor(indices, values, dense_shape)\<close> for a rank-2 dense shape, the
  indices given as a Python list of index pairs. The constructor checks that the index
  tensor has rank 2 (an empty Python list converts to a tensor of shape (0,), which is
  refused) and that there are as many index rows as values.
\<close>

record 'a SparseTensor =
  sp_indices :: "(nat \<times> nat) list"
  sp_values :: "'a list"
  sp_dense_shape :: "nat \<times> nat"

definition sparse_tensor ::
  "(nat \<times> nat) list \<Rightarrow> 'a list \<Rightarrow> nat \<times> nat \<Rightarrow> error + 'a SparseTensor" where
  "sparse_tensor idx vals dense =
     (if idx = [] then Inl ValueError
      else if length idx \<noteq> length vals then Inl ValueError
      else Inr \<lparr>sp_indices = idx, sp_values = vals, sp_dense_shape = dense\<rparr>)"

text \<open>
  \<open>tf.sparse.to_dense(sp, default_value)\<close>: an index outside the dense shape is
  refused (\<open>validate_indices\<close> is on by default). The order check of
  \<open>validate_indices\<close> is not modelled: every index list the program builds is in
  row-major order without repetition.
\<close>

definition sparse_to_dense :: "'a SparseTensor \<Rightarrow> 'a \<Rightarrow> error + 'a matrix" where
  "sparse_to_dense sp default_value =
     (if list_ex (\<lambda>ij. \<not> (fst ij < fst (sp_dense_shape sp) \<and> snd ij < snd (sp_dense_shape sp)))
           (sp_indices sp)
      then Inl InvalidArgumentError
      else Inr (map (\<lambda>i. map (\<lambda>j.
                  (case map_of (zip (sp_indices sp) (sp_values sp)) (i, j) of
                     Some x \<Rightarrow> x
                   | None \<Rightarrow> default_value))
                  [0..<snd (sp_dense_shape sp)])
                [0..<fst (sp_dense_shape sp)]))"

text \<open>
  \<open>tf.roll(x, shift, axis)\<close>: the element at index \<open>i\<close> moves to index
  \<open>(i + shift) mod n\<close>, so a shift of \<open>-1\<close> brings index 1 to index 0.
\<close>

definition roll :: "'a list \<Rightarrow> int \<Rightarrow> 'a list" where
  "roll xs shift = rotate (nat ((- shift) mod int (length xs))) xs"

definition tf_roll :: "'a matrix \<Rightarrow> int \<Rightarrow> nat \<Rightarrow> 'a matrix" where
  "tf_roll m shift axis = (if axis = 0 then roll m shift else map (\<lambda>row. roll row shift) m)"

text \<open>Python's slice \<open>xs[a:b]\<close> for \<open>0 \<le> a \<le> b\<close>.\<close>

definition slice :: "nat \<Rightarrow> nat \<Rightarrow> 'a list \<Rightarrow> 'a list" where
  "slice a b xs = take (b - a) (drop a xs)"

subsection \<open>\_zero\_pad\_fxypsf\<close>

text \<open>
  The kernel \<open>psf\<close> is a rank-2 integer tensor. The branches test \<open>psf.shape[0]\<close>
  only; when it is neither 1 nor 2 no branch binds \<open>psf_padded\<close> and the
  \<open>return\<close> raises UnboundLocalError. \<open>psf[:, 0]\<close> on rows of length 0 is out of
  bounds.
\<close>

definition zero_pad_fxypsf :: "int matrix \<Rightarrow> nat \<times> nat \<Rightarrow> error + int matrix" where
  "zero_pad_fxypsf psf shp =
     (if length psf = 1 then
        (case sparse_tensor [(0, 0), (0, 1)] (psf ! 0) shp of
           Inl e \<Rightarrow> Inl e
         | Inr psf_padded \<Rightarrow> sparse_to_dense psf_padded 0)
      else if length psf = 2 then
        (if list_ex (\<lambda>row. row = []) psf then Inl InvalidArgumentError
         else (case sparse_tensor [(0, 0), (1, 0)] (map hd psf) shp of
                 Inl e \<Rightarrow> Inl e
               | Inr psf_padded \<Rightarrow> sparse_to_dense psf_padded 0))
      else Inl UnboundLocalError)"

subsection \<open>\_fxypsf\_to\_otf\<close>

text \<open>
  \<open>target\<close> is read through \<open>target.shape[0]\<close> and \<open>target.shape[1]\<close> only,
  so the model takes that pair. The transform \<open>tf.signal.fft2d\<close> belongs to the
  library and is a parameter. The shift is the Python expression \<open>-axis_sz // 2\<close>:
  unary minus binds tighter than \<open>//\<close>, and \<open>//\<close> rounds down, as \<open>div\<close> on
  \<open>int\<close> does.
\<close>

definition fxypsf_to_otf ::
  "(complex matrix \<Rightarrow> complex matrix) \<Rightarrow> int matrix \<Rightarrow> nat \<times> nat \<Rightarrow> error + complex matrix" where
  "fxypsf_to_otf fft2d psf target_shape =
     (case zero_pad_fxypsf psf target_shape of
        Inl e \<Rightarrow> Inl e
      | Inr psf_padded \<Rightarrow>
          Inr (fft2d (map (map of_int)
            (fold (\<lambda>(axis, axis_sz) p. tf_roll p ((- int axis_sz) div 2) axis)
               (enumerate 0 (shape2 psf)) psf_padded))))"

subsection \<open>Elementwise operations on rank-3 tensors\<close>

definition zeros_like :: "real tensor3 \<Rightarrow> real tensor3" where
  "zeros_like S = map (map (map (\<lambda>x. 0))) S"

definition tadd :: "real tensor3 \<Rightarrow> real tensor3 \<Rightarrow> real tensor3" where
  "tadd a b = map2 (map2 (map2 (+))) a b"

definition tsub :: "real tensor3 \<Rightarrow> real tensor3 \<Rightarrow> real tensor3" where
  "tsub a b = map2 (map2 (map2 (-))) a b"

definition tneg :: "real tensor3 \<Rightarrow> real tensor3" where
  "tneg a = map (map (map uminus)) a"

definition tpow :: "real tensor3 \<Rightarrow> nat \<Rightarrow> real tensor3" where
  "tpow a n = map (map (map (\<lambda>x. x ^ n))) a"

text \<open>\<open>tf.where\<close> on a rank-2 boolean tensor: the indices of the true entries, row-major.\<close>

definition tf_where :: "bool matrix \<Rightarrow> (nat \<times> nat) list" where
  "tf_where b =
     concat (map (\<lambda>(i, row). map (\<lambda>(j, x). (i, j)) (filter snd (enumerate 0 row)))
               (enumerate 0 b))"

text \<open>\<open>tf.tile(tf.expand_dims(m, 2), [1, 1, C])\<close>.\<close>

definition tile_channels :: "'a matrix \<Rightarrow> nat \<Rightarrow> 'a tensor3" where
  "tile_channels m C = map (map (replicate C)) m"

text \<open>The numpy assignment \<open>a[mask] = 0\<close> with a boolean mask of the shape of \<open>a\<close>.\<close>

definition mask_assign_zero :: "real tensor3 \<Rightarrow> bool tensor3 \<Rightarrow> real tensor3" where
  "mask_assign_zero a msk = map2 (map2 (map2 (\<lambda>x b. if b then 0 else x))) a msk"

subsection \<open>l0\_image\_smoothing: the steps of one iteration\<close>

text \<open>Lines 140 to 149: the field \<open>h\<close> before thresholding.\<close>

definition compute_h :: "real tensor3 \<Rightarrow> nat \<Rightarrow> real tensor3" where
  "compute_h S M =
     (let h = zeros_like S;
          first_hdiff = tsub (map (drop 1) S) (map butlast S);
          last_hdiff = tsub (map (slice 0 1) S) (map (slice (M - 1) M) S);
          h_diff = map2 (@) first_hdiff last_hdiff
      in tadd h h_diff)"

text \<open>Lines 153 to 162: the field \<open>v\<close> before thresholding.\<close>

definition compute_v :: "real tensor3 \<Rightarrow> nat \<Rightarrow> real tensor3" where
  "compute_v S N =
     (let v = zeros_like S;
          first_vdiff = tsub (drop 1 S) (butlast S);
          last_vdiff = tsub (slice 0 1 S) (slice (N - 1) N S);
          v_diff = first_vdiff @ last_vdiff
      in tadd v v_diff)"

text \<open>
  Lines 165 and 166: the squared gradient magnitude summed over the channels. The squares
  and the sum are exact here, where float32 rounds each of them: a value of \<open>t\<close> that
  float32 rounds onto the threshold can fall on the other side of it in this model.
\<close>

definition compute_t :: "real tensor3 \<Rightarrow> real tensor3 \<Rightarrow> real matrix" where
  "compute_t h v =
     (let hv = tadd (tpow h 2) (tpow v 2)
      in map (map sum_list) hv)"

text \<open>
  Lines 170 to 177: the mask, built through a sparse tensor from the indices where
  \<open>t < threshold\<close>, then tiled over the channels.
\<close>

definition compute_mask :: "real matrix \<Rightarrow> real \<Rightarrow> nat \<Rightarrow> error + bool tensor3" where
  "compute_mask t threshold C =
     (let indices_true = tf_where (map (map (\<lambda>x. x < threshold)) t);
          indices = map (\<lambda>i. indices_true ! i) [0..<length indices_true];
          vals = map (\<lambda>i. True) [0..<length indices_true]
      in case sparse_tensor indices vals (shape2 t ! 0, shape2 t ! 1) of
           Inl e \<Rightarrow> Inl e
         | Inr t_masked \<Rightarrow>
             (case sparse_to_dense t_masked False of
                Inl e \<Rightarrow> Inl e
              | Inr t_dense \<Rightarrow> Inr (tile_channels t_dense C)))"

text \<open>
  Lines 140 to 187, the gradient subproblem: \<open>h\<close> and \<open>v\<close> after thresholding.
  The Python division \<open>_lambda/beta\<close> raises on a zero divisor.
\<close>

definition hv_subproblem ::
  "real \<Rightarrow> real \<Rightarrow> nat \<Rightarrow> nat \<Rightarrow> nat \<Rightarrow> real tensor3 \<Rightarrow> error + real tensor3 \<times> real tensor3" where
  "hv_subproblem lam beta N M C S =
     (let h = compute_h S M;
          v = compute_v S N;
          t = compute_t h v
      in if beta = 0 then Inl ZeroDivisionError
         else (case compute_mask t (lam / beta) C of
                 Inl e \<Rightarrow> Inl e
               | Inr t_masked \<Rightarrow>
                   Inr (mask_assign_zero h t_masked, mask_assign_zero v t_masked)))"

text \<open>Lines 191 to 206: the right-hand side of the image subproblem.\<close>

definition compute_numer2 ::
  "real tensor3 \<Rightarrow> nat \<Rightarrow> nat \<Rightarrow> real tensor3 \<Rightarrow> real tensor3 \<Rightarrow> real tensor3" where
  "compute_numer2 S N M h v =
     (let numer2 = zeros_like S;
          numer2_h1 = tsub (map (slice (M - 1) M) h) (map (slice 0 1) h);
          numer2_h2 = tsub (map (drop 1) h) (map butlast h);
          numer2_h = map2 (@) numer2_h1 (tneg numer2_h2);
          numer2 = tadd numer2 numer2_h;
          numer2_v1 = tsub (slice (N - 1) N v) (slice 0 1 v);
          numer2_v2 = tsub (drop 1 v) (butlast v);
          numer2_v = numer2_v1 @ tneg numer2_v2
      in tadd numer2 numer2_v)"

subsection \<open>l0\_image\_smoothing: initialisation, loop and return\<close>

text \<open>
  The input is a numpy array: its shape, and its samples as nested lists when the shape
  has three entries. \<open>tf.signal.fft2d\<close> transforms the inner-most two dimensions of
  its argument, so on the rank-3 image tensor it is applied to each element of the
  outermost list.
\<close>

record ndarray =
  shape :: "nat list"
  items :: "real tensor3"

datatype rtensor = Rank2 "real matrix" | Rank3 "real tensor3"

text \<open>The local variables that are live when the loop starts.\<close>

record l0_locals =
  loc_N :: nat
  loc_M :: nat
  loc_C :: nat
  loc_S :: "real tensor3"
  loc_numer1 :: "complex tensor3"
  loc_denom2 :: rtensor
  loc_beta :: real

text \<open>\<open>tf.abs(z)**2\<close> of a complex number; the code equation avoids the square root.\<close>

definition abs_sq :: "complex \<Rightarrow> real" where
  "abs_sq z = (cmod z) ^ 2"

lemma abs_sq_code [code]: "abs_sq z = (Re z) ^ 2 + (Im z) ^ 2"
  by (simp add: abs_sq_def cmod_power2)

text \<open>
  Lines 110 to 130. The unpacking \<open>N, M, C = img.shape\<close> raises ValueError unless the
  shape has exactly three entries.
\<close>

definition l0_init ::
  "(complex matrix \<Rightarrow> complex matrix) \<Rightarrow> ndarray \<Rightarrow> real \<Rightarrow> error + l0_locals" where
  "l0_init fft2d img lam =
     (case shape img of
        [N, M, C] \<Rightarrow>
          (let S = map (map (map (\<lambda>x. x / 255))) (items img);
               img_tensor = map (map (map complex_of_real)) (items img);
               psf_fx = [[1, - 1]];
               psf_fy = [[1], [- 1]]
           in case fxypsf_to_otf fft2d psf_fx (N, M) of
                Inl e \<Rightarrow> Inl e
              | Inr otf_fx \<Rightarrow>
                  (case fxypsf_to_otf fft2d psf_fy (N, M) of
                     Inl e \<Rightarrow> Inl e
                   | Inr otf_fy \<Rightarrow>
                       (let numer1 = map fft2d img_tensor;
                            denom2 = map2 (map2 (+))
                                       (map (map abs_sq) otf_fx)
                                       (map (map abs_sq) otf_fy)
                        in Inr \<lparr>loc_N = N, loc_M = M, loc_C = C, loc_S = S,
                                loc_numer1 = numer1,
                                loc_denom2 = (if C > 1 then Rank3 (tile_channels denom2 C)
                                              else Rank2 denom2),
                                loc_beta = 2 * lam\<rparr>)))
      | _ \<Rightarrow> Inl ValueError)"

text \<open>Line 132: \<open>denom = 1 + beta * denom2\<close>.\<close>

fun compute_denom :: "real \<Rightarrow> rtensor \<Rightarrow> rtensor" where
  "compute_denom b (Rank2 d) = Rank2 (map (map (\<lambda>x. 1 + b * x)) d)"
| "compute_denom b (Rank3 d) = Rank3 (map (map (map (\<lambda>x. 1 + b * x))) d)"

text \<open>
  Lines 132 to 208, one execution of the loop body. \<open>denom\<close> and \<open>numer2\<close> are
  computed and not used again; \<open>S\<close> is not assigned; the last statement is
  \<open>beta = beta_max\<close>.
\<close>

definition l0_iteration :: "real \<Rightarrow> real \<Rightarrow> l0_locals \<Rightarrow> error + l0_locals" where
  "l0_iteration lam beta_max st =
     (let denom = compute_denom (loc_beta st) (loc_denom2 st)
      in case hv_subproblem lam (loc_beta st) (loc_N st) (loc_M st) (loc_C st) (loc_S st) of
           Inl e \<Rightarrow> Inl e
         | Inr (h, v) \<Rightarrow>
             (let numer2 = compute_numer2 (loc_S st) (loc_N st) (loc_M st) h v
              in Inr (st\<lparr>loc_beta := beta_max\<rparr>)))"

lemma l0_iteration_beta:
  "l0_iteration lam beta_max st = Inr st' \<Longrightarrow> loc_beta st' = beta_max"
  by (auto simp: l0_iteration_def Let_def split: sum.splits prod.splits)

text \<open>Line 131: \<open>while beta < beta_max\<close>.\<close>

function l0_loop :: "real \<Rightarrow> real \<Rightarrow> l0_locals \<Rightarrow> error + l0_locals" where
  "l0_loop lam beta_max st =
     (if loc_beta st < beta_max then
        (case l0_iteration lam beta_max st of
           Inl e \<Rightarrow> Inl e
         | Inr st' \<Rightarrow> l0_loop lam beta_max st')
      else Inr st)"
  by pat_completeness auto
termination
proof (relation "measure (\<lambda>(lam, beta_max, st). if loc_beta st < beta_max then 1 else 0)")
  show "wf (measure (\<lambda>(lam, beta_max, st). if loc_beta st < beta_max then 1 else (0::nat)))"
    by simp
next
  fix lam beta_max :: real and st st' :: l0_locals
  assume "loc_beta st < beta_max" and "l0_iteration lam beta_max st = Inr st'"
  then show "((lam, beta_max, st'), (lam, beta_max, st))
      \<in> measure (\<lambda>(lam, beta_max, st). if loc_beta st < beta_max then 1 else 0)"
    by (simp add: l0_iteration_beta)
qed

declare l0_loop.simps [simp del]

text \<open>The body's last statement is \<open>beta = beta_max\<close>, so the loop test fails after it.\<close>

lemma l0_loop_once:
  "l0_loop lam beta_max st =
     (if loc_beta st < beta_max then l0_iteration lam beta_max st else Inr st)"
proof (cases "loc_beta st < beta_max")
  case False
  then show ?thesis by (subst l0_loop.simps) simp
next
  case True
  show ?thesis
  proof (cases "l0_iteration lam beta_max st")
    case (Inl e)
    with True show ?thesis by (subst l0_loop.simps) simp
  next
    case (Inr st')
    then have "loc_beta st' = beta_max" by (rule l0_iteration_beta)
    then have "l0_loop lam beta_max st' = Inr st'" by (subst l0_loop.simps) simp
    with True Inr show ?thesis by (subst l0_loop.simps) simp
  qed
qed

text \<open>
  The whole function. Line 209 is a bare \<open>return\<close>: the value is Python's \<open>None\<close>,
  here \<open>None\<close> of the option type. \<open>kappa\<close> is a parameter the body never reads.
\<close>

definition l0_image_smoothing ::
  "(complex matrix \<Rightarrow> complex matrix) \<Rightarrow> ndarray \<Rightarrow> real \<Rightarrow> real \<Rightarrow> real
     \<Rightarrow> error + real tensor3 option" where
  "l0_image_smoothing fft2d img lam kappa beta_max =
     (case l0_init fft2d img lam of
        Inl e \<Rightarrow> Inl e
      | Inr st \<Rightarrow>
          (case l0_loop lam beta_max st of
             Inl e \<Rightarrow> Inl e
           | Inr st' \<Rightarrow> Inr None))"

subsection \<open>The library transform, and the converter as the specification words it\<close>

text \<open>
  \<open>tf.signal.fft2d\<close> on a rank-2 tensor, as the library documents it: the
  two-dimensional discrete Fourier transform
  \<open>X[u][v] = \<Sum>m<H. \<Sum>n<W. x[m][n] * exp (- 2 pi i (u m / H + v n / W))\<close>.
  The program's functions take the transform as a parameter; this constant is what
  closed statements instantiate it with.
\<close>

definition dft2d :: "complex matrix \<Rightarrow> complex matrix" where
  "dft2d x =
     (let H = length x; W = shape2 x ! 1
      in map (\<lambda>u. map (\<lambda>v.
            (\<Sum>m<H. \<Sum>n<W. x ! m ! n *
               cis (- 2 * pi * (real u * real m / real H + real v * real n / real W))))
            [0..<W]) [0..<H])"

text \<open>
  The specification's converter, for comparison with \<open>fxypsf_to_otf\<close>: the same
  padding, then each axis rolled by \<open>-floor(axis_length/2)\<close>, then the transform.
\<close>

definition spec_fxypsf_to_otf ::
  "(complex matrix \<Rightarrow> complex matrix) \<Rightarrow> int matrix \<Rightarrow> nat \<times> nat \<Rightarrow> error + complex matrix" where
  "spec_fxypsf_to_otf fft2d psf target_shape =
     (case zero_pad_fxypsf psf target_shape of
        Inl e \<Rightarrow> Inl e
      | Inr psf_padded \<Rightarrow>
          Inr (fft2d (map (map of_int)
            (fold (\<lambda>(axis, axis_sz) p. tf_roll p (- (int axis_sz div 2)) axis)
               (enumerate 0 (shape2 psf)) psf_padded))))"

text \<open>
  The specification's \<open>img_fft\<close>, for comparison with \<open>loc_numer1\<close>: the transform
  over the spatial axes (H, W) of each channel plane, reassembled as (H, W, C).
\<close>

definition spec_img_fft ::
  "(complex matrix \<Rightarrow> complex matrix) \<Rightarrow> nat \<Rightarrow> nat \<Rightarrow> nat \<Rightarrow> complex tensor3 \<Rightarrow> complex tensor3" where
  "spec_img_fft fft2d N M C img_tensor =
     (let planes = map (\<lambda>c. fft2d (map (map (\<lambda>px. px ! c)) img_tensor)) [0..<C]
      in map (\<lambda>i. map (\<lambda>j. map (\<lambda>c. planes ! c ! i ! j) [0..<C]) [0..<M]) [0..<N])"

subsection \<open>Well-shaped tensors\<close>

text \<open>A rank-3 tensor of shape (N, M, C): N rows, each of M pixels, each of C samples.\<close>

definition wf3 :: "nat \<Rightarrow> nat \<Rightarrow> nat \<Rightarrow> 'a tensor3 \<Rightarrow> bool" where
  "wf3 N M C S =
     (length S = N \<and> list_all (\<lambda>row. length row = M \<and> list_all (\<lambda>px. length px = C) row) S)"

section \<open>Properties\<close>

subsection \<open>Shapes and elements of the finite differences\<close>

lemma wf3_row: "wf3 N M C S \<Longrightarrow> i < N \<Longrightarrow> length (S ! i) = M"
  by (auto simp: wf3_def list_all_length)

lemma wf3_px: "wf3 N M C S \<Longrightarrow> i < N \<Longrightarrow> j < M \<Longrightarrow> length (S ! i ! j) = C"
  by (auto simp: wf3_def list_all_length)

lemma wf3_I:
  "length S = N \<Longrightarrow> (\<And>i. i < N \<Longrightarrow> length (S ! i) = M) \<Longrightarrow>
   (\<And>i j. i < N \<Longrightarrow> j < M \<Longrightarrow> length (S ! i ! j) = C) \<Longrightarrow> wf3 N M C S"
  by (auto simp: wf3_def list_all_length)

lemma map2_nth: "i < length xs \<Longrightarrow> i < length ys \<Longrightarrow> map2 f xs ys ! i = f (xs ! i) (ys ! i)"
  by simp

lemma hdiff_row_length:
  "length row = M \<Longrightarrow>
   length (map2 f (drop (Suc 0) row) (butlast row) @
           map2 f (slice 0 (Suc 0) row) (slice (M - Suc 0) M row)) = M"
  by (cases M) (simp_all add: slice_def)

lemma hdiff_row_nth:
  "length row = M \<Longrightarrow> j < M \<Longrightarrow>
   (map2 f (drop (Suc 0) row) (butlast row) @
    map2 f (slice 0 (Suc 0) row) (slice (M - Suc 0) M row)) ! j
   = (if j < M - Suc 0 then f (row ! Suc j) (row ! j) else f (row ! 0) (row ! (M - Suc 0)))"
  by (auto simp: slice_def nth_append nth_butlast)

lemma compute_h_row:
  assumes "wf3 N M C S" "i < N"
  shows "compute_h S M ! i =
    map2 (map2 (+)) (map (map (\<lambda>x. 0)) (S ! i))
      (map2 (map2 (-)) (drop (Suc 0) (S ! i)) (butlast (S ! i)) @
       map2 (map2 (-)) (slice 0 (Suc 0) (S ! i)) (slice (M - Suc 0) M (S ! i)))"
  using assms by (simp add: compute_h_def tadd_def tsub_def zeros_like_def wf3_def)

lemma compute_h_px:
  assumes "wf3 N M C S" "i < N" "j < M"
  shows "compute_h S M ! i ! j =
    map2 (+) (map (\<lambda>x. 0) (S ! i ! j))
      (if j < M - Suc 0 then map2 (-) (S ! i ! Suc j) (S ! i ! j)
       else map2 (-) (S ! i ! 0) (S ! i ! (M - Suc 0)))"
proof -
  define d where "d = map2 (map2 (-)) (drop (Suc 0) (S ! i)) (butlast (S ! i)) @
       map2 (map2 (-)) (slice 0 (Suc 0) (S ! i)) (slice (M - Suc 0) M (S ! i))"
  have len: "length (S ! i) = M" using assms by (simp add: wf3_row)
  have dlen: "length d = M"
    unfolding d_def by (rule hdiff_row_length [OF len])
  have dnth: "d ! j = (if j < M - Suc 0 then map2 (-) (S ! i ! Suc j) (S ! i ! j)
       else map2 (-) (S ! i ! 0) (S ! i ! (M - Suc 0)))"
    unfolding d_def by (rule hdiff_row_nth [OF len assms(3)])
  have "compute_h S M ! i = map2 (map2 (+)) (map (map (\<lambda>x. 0)) (S ! i)) d"
    unfolding d_def by (rule compute_h_row [OF assms(1,2)])
  then show ?thesis
    using assms(3) len dlen by (simp add: dnth)
qed

lemma compute_h_nth:
  assumes "wf3 N M C S" "i < N" "j < M" "c < C"
  shows "compute_h S M ! i ! j ! c =
      (if j < M - 1 then S ! i ! (j + 1) ! c - S ! i ! j ! c
       else S ! i ! 0 ! c - S ! i ! (M - 1) ! c)"
proof -
  have px: "\<And>k. k < M \<Longrightarrow> length (S ! i ! k) = C"
    using assms by (simp add: wf3_px)
  have "Suc j < M" if "j < M - Suc 0" using that by simp
  then show ?thesis
    unfolding compute_h_px [OF assms(1,2,3)]
    using assms px by simp
qed

lemma compute_h_wf:
  assumes "wf3 N M C S"
  shows "wf3 N M C (compute_h S M)"
proof (rule wf3_I)
  show "length (compute_h S M) = N"
    using assms by (simp add: compute_h_def tadd_def tsub_def zeros_like_def wf3_def)
next
  fix i assume i: "i < N"
  then have len: "length (S ! i) = M" using assms by (simp add: wf3_row)
  have "length (map2 (map2 (-)) (drop (Suc 0) (S ! i)) (butlast (S ! i)) @
       map2 (map2 (-)) (slice 0 (Suc 0) (S ! i)) (slice (M - Suc 0) M (S ! i))) = M"
    by (rule hdiff_row_length [OF len])
  then show "length (compute_h S M ! i) = M"
    unfolding compute_h_row [OF assms i] using len by (simp del: length_append)
next
  fix i j assume ij: "i < N" "j < M"
  have px: "\<And>k. k < M \<Longrightarrow> length (S ! i ! k) = C"
    using assms ij by (simp add: wf3_px)
  have "Suc j < M" if "j < M - Suc 0" using that by simp
  then show "length (compute_h S M ! i ! j) = C"
    unfolding compute_h_px [OF assms ij]
    using ij px by simp
qed


lemma compute_v_row:
  assumes "wf3 N M C S" "i < N"
  shows "compute_v S N ! i =
    map2 (map2 (+)) (map (map (\<lambda>x. 0)) (S ! i))
      (if i < N - Suc 0 then map2 (map2 (-)) (S ! Suc i) (S ! i)
       else map2 (map2 (-)) (S ! 0) (S ! (N - Suc 0)))"
proof -
  define d where "d = map2 (map2 (map2 (-))) (drop (Suc 0) S) (butlast S) @
       map2 (map2 (map2 (-))) (slice 0 (Suc 0) S) (slice (N - Suc 0) N S)"
  have len: "length S = N" using assms by (simp add: wf3_def)
  have dlen: "length d = N"
    unfolding d_def by (rule hdiff_row_length [OF len])
  have dnth: "d ! i = (if i < N - Suc 0 then map2 (map2 (-)) (S ! Suc i) (S ! i)
       else map2 (map2 (-)) (S ! 0) (S ! (N - Suc 0)))"
    unfolding d_def by (rule hdiff_row_nth [OF len assms(2)])
  have "compute_v S N = map2 (map2 (map2 (+))) (map (map (map (\<lambda>x. 0))) S) d"
    unfolding d_def by (simp add: compute_v_def tadd_def tsub_def zeros_like_def)
  then show ?thesis
    using assms(2) len dlen by (simp add: dnth)
qed

lemma compute_v_px:
  assumes "wf3 N M C S" "i < N" "j < M"
  shows "compute_v S N ! i ! j =
    map2 (+) (map (\<lambda>x. 0) (S ! i ! j))
      (if i < N - Suc 0 then map2 (-) (S ! Suc i ! j) (S ! i ! j)
       else map2 (-) (S ! 0 ! j) (S ! (N - Suc 0) ! j))"
proof -
  have rows: "\<And>k. k < N \<Longrightarrow> length (S ! k) = M"
    using assms by (simp add: wf3_row)
  have "Suc i < N" if "i < N - Suc 0" using that by simp
  moreover have "0 < N" "N - Suc 0 < N" using assms(2) by simp_all
  ultimately show ?thesis
    unfolding compute_v_row [OF assms(1,2)]
    using assms(2,3) rows by simp
qed

lemma compute_v_nth:
  assumes "wf3 N M C S" "i < N" "j < M" "c < C"
  shows "compute_v S N ! i ! j ! c =
      (if i < N - 1 then S ! (i + 1) ! j ! c - S ! i ! j ! c
       else S ! 0 ! j ! c - S ! (N - 1) ! j ! c)"
proof -
  have px: "\<And>k. k < N \<Longrightarrow> length (S ! k ! j) = C"
    using assms by (simp add: wf3_px)
  have "Suc i < N" if "i < N - Suc 0" using that by simp
  moreover have "0 < N" "N - Suc 0 < N" using assms(2) by simp_all
  ultimately show ?thesis
    unfolding compute_v_px [OF assms(1,2,3)]
    using assms px by simp
qed

lemma compute_v_wf:
  assumes "wf3 N M C S"
  shows "wf3 N M C (compute_v S N)"
proof (rule wf3_I)
  have "length (map2 (map2 (map2 (-))) (drop (Suc 0) S) (butlast S) @
       map2 (map2 (map2 (-))) (slice 0 (Suc 0) S) (slice (N - Suc 0) N S)) = N"
    using assms by (intro hdiff_row_length) (simp add: wf3_def)
  then show "length (compute_v S N) = N"
    using assms by (simp add: compute_v_def tadd_def tsub_def zeros_like_def wf3_def del: length_append)
next
  fix i assume i: "i < N"
  have rows: "\<And>k. k < N \<Longrightarrow> length (S ! k) = M"
    using assms by (simp add: wf3_row)
  have "Suc i < N" if "i < N - Suc 0" using that by simp
  moreover have "0 < N" "N - Suc 0 < N" using i by simp_all
  ultimately show "length (compute_v S N ! i) = M"
    unfolding compute_v_row [OF assms i] using i rows by simp
next
  fix i j assume ij: "i < N" "j < M"
  have px: "\<And>k. k < N \<Longrightarrow> length (S ! k ! j) = C"
    using assms ij by (simp add: wf3_px)
  have "Suc i < N" if "i < N - Suc 0" using that by simp
  moreover have "0 < N" "N - Suc 0 < N" using ij by simp_all
  ultimately show "length (compute_v S N ! i ! j) = C"
    unfolding compute_v_px [OF assms ij]
    using ij px by simp
qed


lemma compute_t_length:
  assumes "wf3 N M C h" "wf3 N M C v"
  shows "length (compute_t h v) = N"
  using assms by (simp add: compute_t_def tadd_def tpow_def wf3_def)

lemma compute_t_row_length:
  assumes "wf3 N M C h" "wf3 N M C v" "i < N"
  shows "length (compute_t h v ! i) = M"
proof -
  have "length h = N" "length v = N" using assms by (simp_all add: wf3_def)
  moreover have "length (h ! i) = M" "length (v ! i) = M"
    using assms by (simp_all add: wf3_row)
  ultimately show ?thesis
    using assms(3) by (simp add: compute_t_def tadd_def tpow_def)
qed

lemma sum_list_map2:
  assumes "length xs = n" "length ys = n"
  shows "sum_list (map2 f xs ys) = (\<Sum>c<n. f (xs ! c) (ys ! c))"
proof -
  have "sum_list (map2 f xs ys) = (\<Sum>c = 0..<n. map2 f xs ys ! c)"
    using assms by (simp add: sum_list_sum_nth)
  also have "\<dots> = (\<Sum>c = 0..<n. f (xs ! c) (ys ! c))"
    using assms by (intro sum.cong) simp_all
  finally show ?thesis by (simp add: atLeast0LessThan)
qed

lemma compute_t_nth:
  assumes "wf3 N M C h" "wf3 N M C v" "i < N" "j < M"
  shows "compute_t h v ! i ! j = (\<Sum>c<C. (h ! i ! j ! c)\<^sup>2 + (v ! i ! j ! c)\<^sup>2)"
proof -
  have "length h = N" "length v = N" using assms by (simp_all add: wf3_def)
  moreover have "length (h ! i) = M" "length (v ! i) = M"
    using assms by (simp_all add: wf3_row)
  ultimately have "compute_t h v ! i ! j =
      sum_list (map2 (+) (map (\<lambda>x. x\<^sup>2) (h ! i ! j)) (map (\<lambda>x. x\<^sup>2) (v ! i ! j)))"
    using assms(3,4) by (simp add: compute_t_def tadd_def tpow_def)
  also have "\<dots> = (\<Sum>c<C. map (\<lambda>x. x\<^sup>2) (h ! i ! j) ! c + map (\<lambda>x. x\<^sup>2) (v ! i ! j) ! c)"
    using assms by (intro sum_list_map2) (simp_all add: wf3_px)
  also have "\<dots> = (\<Sum>c<C. (h ! i ! j ! c)\<^sup>2 + (v ! i ! j ! c)\<^sup>2)"
    using assms by (intro sum.cong) (simp_all add: wf3_px)
  finally show ?thesis .
qed

lemma set_tf_where:
  "set (tf_where b) = {(i, j). i < length b \<and> j < length (b ! i) \<and> b ! i ! j}"
proof -
  have "p \<in> set (tf_where b) \<longleftrightarrow>
      fst p < length b \<and> snd p < length (b ! fst p) \<and> b ! fst p ! snd p" for p
  proof
    assume "p \<in> set (tf_where b)"
    then show "fst p < length b \<and> snd p < length (b ! fst p) \<and> b ! fst p ! snd p"
      by (auto simp: tf_where_def in_set_enumerate_eq)
  next
    assume a: "fst p < length b \<and> snd p < length (b ! fst p) \<and> b ! fst p ! snd p"
    then have "(fst p, b ! fst p) \<in> set (enumerate 0 b)"
      by (simp add: in_set_enumerate_eq)
    moreover have "(snd p, True) \<in> set (enumerate 0 (b ! fst p))"
      using a by (simp add: in_set_enumerate_eq)
    ultimately show "p \<in> set (tf_where b)"
      unfolding tf_where_def by (force simp: image_iff)
  qed
  then show ?thesis by auto
qed

lemma map_of_zip_True:
  "map_of (zip w (map (\<lambda>i. True) [0..<length w])) k = (if k \<in> set w then Some True else None)"
proof (cases "k \<in> set w")
  case False
  then show ?thesis by (simp add: map_of_zip_is_None)
next
  case True
  then obtain x where x: "map_of (zip w (map (\<lambda>i. True) [0..<length w])) k = Some x"
    using map_of_zip_is_Some [of w "map (\<lambda>i. True) [0..<length w]" k] by auto
  then have "(k, x) \<in> set (zip w (map (\<lambda>i. True) [0..<length w]))"
    by (rule map_of_SomeD)
  then have "x \<in> set (map (\<lambda>i. True) [0..<length w])"
    by (rule set_zip_rightD)
  then have "x = True" by auto
  with x True show ?thesis by simp
qed


lemma shape2_rect:
  assumes "length t = N" "\<And>i. i < N \<Longrightarrow> length (t ! i) = M" "0 < N"
  shows "shape2 t ! 0 = N" "shape2 t ! Suc 0 = M"
proof -
  show "shape2 t ! 0 = N" using assms(1) by (simp add: shape2_def)
  obtain r rs where t: "t = r # rs" using assms(1,3) by (cases t) auto
  have "length (t ! 0) = M" using assms(2,3) by simp
  then show "shape2 t ! Suc 0 = M" by (simp add: shape2_def t)
qed

lemma compute_mask_eq:
  assumes len: "length t = N" and rows: "\<And>i. i < N \<Longrightarrow> length (t ! i) = M"
  shows "compute_mask t thr C =
     (if \<exists>i<N. \<exists>j<M. t ! i ! j < thr
      then Inr (map (map (\<lambda>x. replicate C (x < thr))) t)
      else Inl ValueError)"
proof -
  define w where "w = tf_where (map (map (\<lambda>x. x < thr)) t)"
  have setw: "set w = {(i, j). i < N \<and> j < M \<and> t ! i ! j < thr}"
    unfolding w_def set_tf_where using len rows by auto
  have idx: "map (\<lambda>i. w ! i) [0..<length w] = w" by (rule map_nth)
  have cm: "compute_mask t thr C =
     (case sparse_tensor w (map (\<lambda>i. True) [0..<length w]) (shape2 t ! 0, shape2 t ! 1) of
        Inl e \<Rightarrow> Inl e
      | Inr t_masked \<Rightarrow>
          (case sparse_to_dense t_masked False of
             Inl e \<Rightarrow> Inl e
           | Inr t_dense \<Rightarrow> Inr (tile_channels t_dense C)))"
    unfolding compute_mask_def Let_def w_def [symmetric] idx ..
  show ?thesis
  proof (cases "\<exists>i<N. \<exists>j<M. t ! i ! j < thr")
    case False
    then have "set w = {}" unfolding setw by auto
    then have "w = []" by simp
    then show ?thesis using False by (simp add: cm sparse_tensor_def)
  next
    case True
    then have "set w \<noteq> {}" unfolding setw by auto
    then have wne: "w \<noteq> []" by auto
    from True have N: "0 < N" by auto
    have shp: "shape2 t ! 0 = N" "shape2 t ! Suc 0 = M"
      using shape2_rect [OF len rows N] by simp_all
    have bounds: "\<not> list_ex (\<lambda>ij. \<not> (fst ij < N \<and> snd ij < M)) w"
      unfolding list_ex_iff setw by auto
    have dense: "map (\<lambda>i. map (\<lambda>j.
                  (case map_of (zip w (map (\<lambda>i. True) [0..<length w])) (i, j) of
                     Some x \<Rightarrow> x | None \<Rightarrow> False)) [0..<M]) [0..<N]
        = map (map (\<lambda>x. x < thr)) t"
      using len rows by (intro nth_equalityI) (simp_all add: map_of_zip_True setw)
    have "compute_mask t thr C = Inr (tile_channels (map (map (\<lambda>x. x < thr)) t) C)"
      using wne bounds by (simp add: cm sparse_tensor_def sparse_to_dense_def shp dense)
    then show ?thesis using True by (simp add: tile_channels_def comp_def)
  qed
qed

lemma mask_assign_zero_nth:
  assumes "wf3 N M C a" "wf3 N M C msk" "i < N" "j < M" "c < C"
  shows "mask_assign_zero a msk ! i ! j ! c = (if msk ! i ! j ! c then 0 else a ! i ! j ! c)"
proof -
  have "length a = N" "length msk = N" using assms by (simp_all add: wf3_def)
  moreover have "length (a ! i) = M" "length (msk ! i) = M"
    using assms by (simp_all add: wf3_row)
  moreover have "length (a ! i ! j) = C" "length (msk ! i ! j) = C"
    using assms by (simp_all add: wf3_px)
  ultimately show ?thesis
    using assms(3,4,5) by (simp add: mask_assign_zero_def)
qed

lemma hv_subproblem_eq:
  assumes "wf3 N M C S"
  shows "hv_subproblem lam beta N M C S =
     (if beta = 0 then Inl ZeroDivisionError
      else if \<exists>i<N. \<exists>j<M. compute_t (compute_h S M) (compute_v S N) ! i ! j < lam / beta
      then Inr (mask_assign_zero (compute_h S M)
                  (map (map (\<lambda>x. replicate C (x < lam / beta)))
                     (compute_t (compute_h S M) (compute_v S N))),
                mask_assign_zero (compute_v S N)
                  (map (map (\<lambda>x. replicate C (x < lam / beta)))
                     (compute_t (compute_h S M) (compute_v S N))))
      else Inl ValueError)"
proof -
  have h: "wf3 N M C (compute_h S M)" and v: "wf3 N M C (compute_v S N)"
    using assms by (simp_all add: compute_h_wf compute_v_wf)
  have cm: "compute_mask (compute_t (compute_h S M) (compute_v S N)) (lam / beta) C =
     (if \<exists>i<N. \<exists>j<M. compute_t (compute_h S M) (compute_v S N) ! i ! j < lam / beta
      then Inr (map (map (\<lambda>x. replicate C (x < lam / beta)))
                 (compute_t (compute_h S M) (compute_v S N)))
      else Inl ValueError)"
    by (rule compute_mask_eq [OF compute_t_length [OF h v] compute_t_row_length [OF h v]])
  show ?thesis unfolding hv_subproblem_def Let_def cm by auto
qed

lemma hv_subproblem_completes_iff:
  assumes "wf3 N M C S"
  shows "(\<exists>h' v'. hv_subproblem lam beta N M C S = Inr (h', v')) \<longleftrightarrow>
     beta \<noteq> 0 \<and> (\<exists>i<N. \<exists>j<M. compute_t (compute_h S M) (compute_v S N) ! i ! j < lam / beta)"
  unfolding hv_subproblem_eq [OF assms] by auto

subsection \<open>Evaluations at concrete inputs\<close>

lemma cis_minus_pi: "cis (- pi) = - 1"
  by (simp add: complex_eq_iff)

lemma cis_minus_2pi: "cis (- (2 * pi)) = 1"
  by (simp add: complex_eq_iff)

lemmas dft2d_eval = dft2d_def shape2_def Let_def upt_rec numeral_2_eq_2 lessThan_Suc
  cis_minus_pi cis_minus_2pi

lemma dft2d_code_rolled: "dft2d [[0, 0], [- 1, 1]] = [[0, - 2], [0, 2]]"
  by (simp add: dft2d_eval)

lemma dft2d_spec_rolled: "dft2d [[- 1, 1], [0, 0]] = [[0, - 2], [0, - 2]]"
  by (simp add: dft2d_eval)

lemma dft2d_column_one: "dft2d [[1], [0]] = [[1], [1]]"
  by (simp add: dft2d_eval)

lemma dft2d_column_zero: "dft2d [[0], [0]] = [[0], [0]]"
  by (simp add: dft2d_eval)

lemma dft2d_plane: "dft2d [[1, 0], [0, 0]] = [[1, 1], [1, 1]]"
  by (simp add: dft2d_eval)

lemma fx_code: "fxypsf_to_otf fft2d [[1, - 1]] (2, 2) = Inr (fft2d [[0, 0], [- 1, 1]])"
  by code_simp

lemma fx_spec: "spec_fxypsf_to_otf fft2d [[1, - 1]] (2, 2) = Inr (fft2d [[- 1, 1], [0, 0]])"
  by code_simp


lemma numer1_code:
  "map_sum id loc_numer1
     (l0_init fft2d \<lparr>shape = [2, 2, 1], items = [[[1], [0]], [[0], [0]]]\<rparr> lam)
     = Inr [fft2d [[1], [0]], fft2d [[0], [0]]]"
  by code_simp

lemma numer1_spec:
  "spec_img_fft fft2d 2 2 1 [[[1], [0]], [[0], [0]]] =
     [[[fft2d [[1, 0], [0, 0]] ! 0 ! 0], [fft2d [[1, 0], [0, 0]] ! 0 ! 1]],
      [[fft2d [[1, 0], [0, 0]] ! 1 ! 0], [fft2d [[1, 0], [0, 0]] ! 1 ! 1]]]"
  by code_simp

lemma returns_none_flat:
  "l0_image_smoothing fft2d
     \<lparr>shape = [2, 2, 1], items = [[[255], [255]], [[255], [255]]]\<rparr> (2 / 100) 2 100000 = Inr None"
  by code_simp


lemma hv_edge:
  "hv_subproblem (2 / 100) (4 / 100) 2 3 1 [[[0], [1 / 10], [1]], [[0], [1 / 10], [1]]]
     = Inr ([[[0], [9 / 10], [- 1]], [[0], [9 / 10], [- 1]]], [[[0], [0], [0]], [[0], [0], [0]]])"
  by code_simp

lemma iteration_edge:
  "l0_iteration (2 / 100) 100000
     \<lparr>loc_N = 2, loc_M = 3, loc_C = 1,
      loc_S = [[[0], [1 / 10], [1]], [[0], [1 / 10], [1]]],
      loc_numer1 = n1, loc_denom2 = d2, loc_beta = 4 / 100\<rparr>
   = Inr \<lparr>loc_N = 2, loc_M = 3, loc_C = 1,
      loc_S = [[[0], [1 / 10], [1]], [[0], [1 / 10], [1]]],
      loc_numer1 = n1, loc_denom2 = d2, loc_beta = 100000\<rparr>"
  unfolding l0_iteration_def Let_def l0_locals.simps hv_edge by simp

lemma hv_checkerboard:
  "hv_subproblem (2 / 100) (4 / 100) 2 2 1 [[[0], [1]], [[1], [0]]] = Inl ValueError"
  by code_simp

lemma t_checkerboard:
  "compute_t (compute_h [[[0], [1]], [[1], [0]]] 2) (compute_v [[[0], [1]], [[1], [0]]] 2)
     = [[2, 2], [2, 2]]"
  by code_simp

lemma smoothing_checkerboard:
  "l0_image_smoothing fft2d
     \<lparr>shape = [2, 2, 1], items = [[[0], [255]], [[255], [0]]]\<rparr> (2 / 100) 2 100000
     = Inl ValueError"
  by code_simp

lemma claimed_count: "\<lceil>log 2 (100000 / (2 * (2 / 100)))\<rceil> = (22::int)"
proof -
  have "\<lceil>log 2 (2500000::real)\<rceil> = int 21 + 1"
    by (subst ceiling_log_eq_powr_iff) (simp_all add: powr_realpow)
  then show ?thesis by simp
qed


section \<open>The claims\<close>

text \<open>
  C1 (the claim: for every valid image of shape (H, W, C) the call returns a smoothed image
  of the same shape with samples in [0, 1]). The function ends in a bare \<open>return\<close>:
  whatever the arguments, it never returns an image, and on the flat 2 x 2 x 1 image of
  samples 255 with the default parameters it returns \<open>None\<close>.
\<close>

theorem l0_image_smoothing_returns_none:
  "l0_image_smoothing fft2d img lam kappa beta_max \<noteq> Inr (Some smoothed)
   \<and> l0_image_smoothing fft2d
        \<lparr>shape = [2, 2, 1], items = [[[255], [255]], [[255], [255]]]\<rparr> (2 / 100) 2 100000
        = Inr None"
proof -
  have "l0_image_smoothing fft2d img lam kappa beta_max \<noteq> Inr (Some smoothed)"
    by (simp add: l0_image_smoothing_def split: sum.splits)
  then show ?thesis using returns_none_flat by (rule conjI)
qed

text \<open>
  C2 (the claim: in every iteration \<open>S\<close> is replaced by the real part of the inverse
  transform of \<open>(img_fft + beta * FFT2D(numer2)) / (1 + beta * denom2)\<close>). The loop
  body has no inverse transform and no assignment to \<open>S\<close>: an iteration either raises
  or leaves \<open>S\<close> as it was, as on the image rows \<open>0, 0.1, 1\<close>, where it completes and
  changes \<open>beta\<close> only.
\<close>

theorem l0_iteration_leaves_S_unchanged:
  "(case l0_iteration lam beta_max st of
      Inl e \<Rightarrow> True
    | Inr st' \<Rightarrow> loc_S st' = loc_S st)
   \<and> l0_iteration (2 / 100) 100000
     \<lparr>loc_N = 2, loc_M = 3, loc_C = 1,
      loc_S = [[[0], [1 / 10], [1]], [[0], [1 / 10], [1]]],
      loc_numer1 = n1, loc_denom2 = d2, loc_beta = 4 / 100\<rparr>
   = Inr \<lparr>loc_N = 2, loc_M = 3, loc_C = 1,
      loc_S = [[[0], [1 / 10], [1]], [[0], [1 / 10], [1]]],
      loc_numer1 = n1, loc_denom2 = d2, loc_beta = 100000\<rparr>"
proof -
  have "case l0_iteration lam beta_max st of
          Inl e \<Rightarrow> True
        | Inr st' \<Rightarrow> loc_S st' = loc_S st"
    by (auto simp: l0_iteration_def Let_def split: sum.splits prod.splits)
  then show ?thesis using iteration_edge by (rule conjI)
qed

text \<open>
  C3 (the claim: the loop terminates, \<open>beta\<close> starts at \<open>2 * lambda\<close> and is multiplied
  by \<open>kappa\<close> after each iteration, and the body runs exactly
  \<open>ceil(log_kappa(beta_max / (2 * lambda)))\<close> times). The loop does terminate, but the
  body ends with \<open>beta = beta_max\<close>: the loop is one execution of the body when
  \<open>beta < beta_max\<close> and none otherwise. With \<open>lambda = 0.02\<close>, \<open>kappa = 2\<close> and
  \<open>beta_max = 100000\<close> it stops after one iteration with \<open>beta = 100000\<close>, which is
  not \<open>0.04 * 2\<close>, where the claimed count is 22.
\<close>

theorem l0_loop_runs_body_once:
  "l0_loop lam beta_max st =
     (if loc_beta st < beta_max then l0_iteration lam beta_max st else Inr st)
   \<and> l0_loop (2 / 100) 100000
     \<lparr>loc_N = 2, loc_M = 3, loc_C = 1,
      loc_S = [[[0], [1 / 10], [1]], [[0], [1 / 10], [1]]],
      loc_numer1 = n1, loc_denom2 = d2, loc_beta = 2 * (2 / 100)\<rparr>
   = Inr \<lparr>loc_N = 2, loc_M = 3, loc_C = 1,
      loc_S = [[[0], [1 / 10], [1]], [[0], [1 / 10], [1]]],
      loc_numer1 = n1, loc_denom2 = d2, loc_beta = 100000\<rparr>
   \<and> (100000::real) \<noteq> 2 * (2 / 100) * 2
   \<and> \<lceil>log 2 (100000 / (2 * (2 / 100)))\<rceil> = (22::int)"
proof -
  have "l0_loop (2 / 100) 100000
     \<lparr>loc_N = 2, loc_M = 3, loc_C = 1,
      loc_S = [[[0], [1 / 10], [1]], [[0], [1 / 10], [1]]],
      loc_numer1 = n1, loc_denom2 = d2, loc_beta = 2 * (2 / 100)\<rparr>
   = l0_iteration (2 / 100) 100000
     \<lparr>loc_N = 2, loc_M = 3, loc_C = 1,
      loc_S = [[[0], [1 / 10], [1]], [[0], [1 / 10], [1]]],
      loc_numer1 = n1, loc_denom2 = d2, loc_beta = 4 / 100\<rparr>"
    by (subst l0_loop_once) simp
  then have "l0_loop (2 / 100) 100000
     \<lparr>loc_N = 2, loc_M = 3, loc_C = 1,
      loc_S = [[[0], [1 / 10], [1]], [[0], [1 / 10], [1]]],
      loc_numer1 = n1, loc_denom2 = d2, loc_beta = 2 * (2 / 100)\<rparr>
   = Inr \<lparr>loc_N = 2, loc_M = 3, loc_C = 1,
      loc_S = [[[0], [1 / 10], [1]], [[0], [1 / 10], [1]]],
      loc_numer1 = n1, loc_denom2 = d2, loc_beta = 100000\<rparr>"
    by (simp only: iteration_edge)
  moreover have "(100000::real) \<noteq> 2 * (2 / 100) * 2" by simp
  ultimately show ?thesis using l0_loop_once claimed_count by blast
qed

text \<open>
  C4 (the claim: for a (1, 2) or (2, 1) kernel and a target with H and W at least 2, the
  converter returns the transform of the padded kernel rolled by \<open>-floor(l/2)\<close> along
  each axis, that is by 0 along the kernel's axis of length 1). The program's shift is
  \<open>-axis_sz // 2\<close>, which is \<open>-1\<close> for an axis of length 1 as well. For the kernel
  \<open>[1, -1]\<close> and the 2 x 2 target the converter transforms
  \<open>[[0, 0], [-1, 1]]\<close>, the claim's array is \<open>[[-1, 1], [0, 0]]\<close>, and the two
  transforms differ.
\<close>

theorem fxypsf_to_otf_rolls_unit_axis:
  "fxypsf_to_otf fft2d [[1, - 1]] (2, 2) = Inr (fft2d [[0, 0], [- 1, 1]])
   \<and> spec_fxypsf_to_otf fft2d [[1, - 1]] (2, 2) = Inr (fft2d [[- 1, 1], [0, 0]])
   \<and> fxypsf_to_otf dft2d [[1, - 1]] (2, 2) = Inr [[0, - 2], [0, 2]]
   \<and> spec_fxypsf_to_otf dft2d [[1, - 1]] (2, 2) = Inr [[0, - 2], [0, - 2]]"
  by (simp add: fx_code fx_spec dft2d_code_rolled dft2d_spec_rolled)

subsection \<open>The gradient subproblem\<close>

text \<open>
  What the gradient subproblem returns, when it returns, on an image tensor of shape
  (N, M, C): the hard threshold of \<open>compute_h\<close> and \<open>compute_v\<close>.
\<close>

lemma hv_subproblem_threshold_of_result:
  assumes "wf3 N M C S"
    and "hv_subproblem lam beta N M C S = Inr (h', v')"
    and "i < N" "j < M" "c < C"
  shows "compute_t (compute_h S M) (compute_v S N) ! i ! j =
           (\<Sum>c<C. (compute_h S M ! i ! j ! c)\<^sup>2 + (compute_v S N ! i ! j ! c)\<^sup>2)
       \<and> (compute_t (compute_h S M) (compute_v S N) ! i ! j < lam / beta \<longrightarrow>
            h' ! i ! j ! c = 0 \<and> v' ! i ! j ! c = 0)
       \<and> (lam / beta \<le> compute_t (compute_h S M) (compute_v S N) ! i ! j \<longrightarrow>
            h' ! i ! j ! c = compute_h S M ! i ! j ! c \<and>
            v' ! i ! j ! c = compute_v S N ! i ! j ! c)"
proof -
  define t where "t = compute_t (compute_h S M) (compute_v S N)"
  define msk where "msk = map (map (\<lambda>x. replicate C (x < lam / beta))) t"
  have h: "wf3 N M C (compute_h S M)" and v: "wf3 N M C (compute_v S N)"
    using assms(1) by (simp_all add: compute_h_wf compute_v_wf)
  have tlen: "length t = N" and trow: "\<And>k. k < N \<Longrightarrow> length (t ! k) = M"
    unfolding t_def by (rule compute_t_length [OF h v], rule compute_t_row_length [OF h v])
  have mwf: "wf3 N M C msk"
    unfolding msk_def using tlen trow by (intro wf3_I) simp_all
  have mnth: "msk ! i ! j ! c = (t ! i ! j < lam / beta)"
    unfolding msk_def using tlen trow assms(3,4,5) by simp
  have res: "h' = mask_assign_zero (compute_h S M) msk"
    "v' = mask_assign_zero (compute_v S N) msk"
    using assms(2) unfolding hv_subproblem_eq [OF assms(1)] msk_def t_def
    by (auto split: if_splits)
  have h': "h' ! i ! j ! c = (if t ! i ! j < lam / beta then 0 else compute_h S M ! i ! j ! c)"
    unfolding res using mask_assign_zero_nth [OF h mwf assms(3,4,5)] mnth by simp
  have v': "v' ! i ! j ! c = (if t ! i ! j < lam / beta then 0 else compute_v S N ! i ! j ! c)"
    unfolding res using mask_assign_zero_nth [OF v mwf assms(3,4,5)] mnth by simp
  have "t ! i ! j = (\<Sum>c<C. (compute_h S M ! i ! j ! c)\<^sup>2 + (compute_v S N ! i ! j ! c)\<^sup>2)"
    unfolding t_def by (rule compute_t_nth [OF h v assms(3,4)])
  then show ?thesis
    using h' v' unfolding t_def by auto
qed

text \<open>
  It returns whenever \<open>beta\<close> is not zero and some pixel is below the threshold, and
  then thresholds every pixel.
\<close>

lemma hv_subproblem_thresholds_nonempty_mask:
  assumes "wf3 N M C S" and "beta \<noteq> 0"
    and "\<exists>i<N. \<exists>j<M. compute_t (compute_h S M) (compute_v S N) ! i ! j < lam / beta"
  shows "\<exists>h' v'. hv_subproblem lam beta N M C S = Inr (h', v') \<and>
     (\<forall>i<N. \<forall>j<M. \<forall>c<C.
        (compute_t (compute_h S M) (compute_v S N) ! i ! j < lam / beta \<longrightarrow>
           h' ! i ! j ! c = 0 \<and> v' ! i ! j ! c = 0) \<and>
        (lam / beta \<le> compute_t (compute_h S M) (compute_v S N) ! i ! j \<longrightarrow>
           h' ! i ! j ! c = compute_h S M ! i ! j ! c \<and>
           v' ! i ! j ! c = compute_v S N ! i ! j ! c))"
proof -
  obtain h' v' where r: "hv_subproblem lam beta N M C S = Inr (h', v')"
    using hv_subproblem_completes_iff [OF assms(1), of lam beta] assms(2,3) by blast
  show ?thesis
    using r hv_subproblem_threshold_of_result [OF assms(1) r] by blast
qed

lemma t_stripes:
  "compute_t (compute_h [[[0], [1], [0]], [[1], [0], [1]]] 3)
             (compute_v [[[0], [1], [0]], [[1], [0], [1]]] 2)
     = [[2, 2, 1], [2, 2, 1]]"
  by code_simp

lemma h_stripes:
  "compute_h [[[0], [1], [0]], [[1], [0], [1]]] 3 = [[[1], [- 1], [0]], [[- 1], [1], [0]]]"
  by code_simp

lemma hv_stripes:
  "hv_subproblem (2 / 100) (4 / 100) 2 3 1 [[[0], [1], [0]], [[1], [0], [1]]] = Inl ValueError"
  by code_simp

lemma smoothing_stripes:
  "l0_image_smoothing fft2d
     \<lparr>shape = [2, 3, 1], items = [[[0], [255], [0]], [[255], [0], [255]]]\<rparr> (2 / 100) 2 100000
     = Inl ValueError"
  by code_simp

text \<open>
  C5 (the claim: in every iteration, after the gradient subproblem, \<open>h\<close> and \<open>v\<close>
  are zero in all channels at every pixel whose \<open>t[i,j]\<close>, the sum over the channels
  of \<open>h\<^sup>2 + v\<^sup>2\<close>, is below \<open>lambda / beta\<close>, and are the unmodified
  finite differences at every pixel with \<open>t[i,j] \<ge> lambda / beta\<close>). The mask is
  built through \<open>tf.SparseTensor\<close>, which raises on an empty index list: in an
  iteration where every pixel has \<open>t[i,j] \<ge> lambda / beta\<close> the claim keeps the
  finite differences everywhere, and the program raises ValueError instead. On the
  2 x 3 x 1 image with rows \<open>0, 255, 0\<close> and \<open>255, 0, 255\<close> the differences are
  not zero, every \<open>t\<close> is 1 or 2, the first threshold is 0.5, and neither the gradient
  subproblem nor the call returns.
\<close>

theorem hv_subproblem_raises_when_all_kept:
  "compute_h [[[0], [1], [0]], [[1], [0], [1]]] 3 = [[[1], [- 1], [0]], [[- 1], [1], [0]]]
   \<and> compute_t (compute_h [[[0], [1], [0]], [[1], [0], [1]]] 3)
               (compute_v [[[0], [1], [0]], [[1], [0], [1]]] 2)
       = [[2, 2, 1], [2, 2, 1]]
   \<and> hv_subproblem (2 / 100) (4 / 100) 2 3 1 [[[0], [1], [0]], [[1], [0], [1]]]
       = Inl ValueError
   \<and> l0_image_smoothing fft2d
        \<lparr>shape = [2, 3, 1], items = [[[0], [255], [0]], [[255], [0], [255]]]\<rparr>
        (2 / 100) 2 100000
       = Inl ValueError"
  using h_stripes t_stripes hv_stripes smoothing_stripes by blast

text \<open>
  C6 (the claim: in every iteration, before thresholding, \<open>h\<close> and \<open>v\<close> are the
  circular forward differences of the current \<open>S\<close>, each of shape (H, W, C)). For
  an image tensor of shape (N, M, C): \<open>h[i, j] = S[i, j+1] - S[i, j]\<close> for
  \<open>j < M - 1\<close>, \<open>h[i, M-1] = S[i, 0] - S[i, M-1]\<close>, \<open>v[i, j] = S[i+1, j] - S[i, j]\<close>
  for \<open>i < N - 1\<close>, \<open>v[N-1, j] = S[0, j] - S[N-1, j]\<close>, and both fields have the
  shape of \<open>S\<close>.
\<close>

theorem compute_h_v_circular_forward_differences:
  assumes "wf3 N M C S" "i < N" "j < M" "c < C"
  shows "compute_h S M ! i ! j ! c =
           (if j < M - 1 then S ! i ! (j + 1) ! c - S ! i ! j ! c
            else S ! i ! 0 ! c - S ! i ! (M - 1) ! c)
       \<and> compute_v S N ! i ! j ! c =
           (if i < N - 1 then S ! (i + 1) ! j ! c - S ! i ! j ! c
            else S ! 0 ! j ! c - S ! (N - 1) ! j ! c)
       \<and> wf3 N M C (compute_h S M) \<and> wf3 N M C (compute_v S N)"
  using compute_h_nth [OF assms] compute_v_nth [OF assms]
    compute_h_wf [OF assms(1)] compute_v_wf [OF assms(1)]
  by blast

text \<open>The 2 x 3 x 1 tensor with rows \<open>0, 1, 3\<close> and \<open>2, 5, 9\<close>, at an inner and at a wrapping pixel.\<close>

theorem compute_h_v_circular_forward_differences_witness:
  "wf3 2 3 1 [[[0], [1], [3]], [[2], [5], [9 :: real]]]
   \<and> compute_h [[[0], [1], [3]], [[2], [5], [9]]] 3 ! 1 ! 2 ! 0 = - 7
   \<and> compute_v [[[0], [1], [3]], [[2], [5], [9]]] 2 ! 1 ! 2 ! 0 = - 6
   \<and> compute_h [[[0], [1], [3]], [[2], [5], [9]]] 3 ! 0 ! 1 ! 0 = 2
   \<and> compute_v [[[0], [1], [3]], [[2], [5], [9]]] 2 ! 0 ! 1 ! 0 = 4"
proof -
  have wf: "wf3 2 3 1 [[[0], [1], [3]], [[2], [5], [9 :: real]]]"
    by (simp add: wf3_def)
  show ?thesis
    using wf
      compute_h_v_circular_forward_differences [OF wf, of 1 2 0]
      compute_h_v_circular_forward_differences [OF wf, of 0 1 0]
    by simp
qed

text \<open>
  C7 (the claim: \<open>img_fft\<close> is computed once, as the forward transform over the
  spatial axes (H, W) of each channel of the original image cast to complex, and is
  used unchanged in every iteration). \<open>numer1\<close> is computed once from the original
  image, but \<open>tf.signal.fft2d\<close> transforms the inner-most two axes, (W, C), of the
  (H, W, C) tensor: on the 2 x 2 x 1 image with the single sample 1 at pixel (0, 0) the
  library transform receives the two 2 x 1 slices, one per image row, and the result
  differs from the per-channel transform over (H, W). No iteration reads \<open>numer1\<close>:
  changing it changes nothing else.
\<close>

theorem l0_init_numer1_inner_axes:
  "map_sum id loc_numer1
     (l0_init fft2d \<lparr>shape = [2, 2, 1], items = [[[1], [0]], [[0], [0]]]\<rparr> lam)
     = Inr [fft2d [[1], [0]], fft2d [[0], [0]]]
   \<and> map_sum id loc_numer1
     (l0_init dft2d \<lparr>shape = [2, 2, 1], items = [[[1], [0]], [[0], [0]]]\<rparr> lam)
     = Inr [[[1], [1]], [[0], [0]]]
   \<and> spec_img_fft dft2d 2 2 1 [[[1], [0]], [[0], [0]]] = [[[1], [1]], [[1], [1]]]
   \<and> l0_iteration lam beta_max (st\<lparr>loc_numer1 := x\<rparr>)
     = map_sum id (\<lambda>s. s\<lparr>loc_numer1 := x\<rparr>) (l0_iteration lam beta_max st)"
proof -
  have "l0_iteration lam beta_max (st\<lparr>loc_numer1 := x\<rparr>)
     = map_sum id (\<lambda>s. s\<lparr>loc_numer1 := x\<rparr>) (l0_iteration lam beta_max st)"
    by (simp add: l0_iteration_def Let_def split: sum.splits prod.splits)
  moreover have "spec_img_fft dft2d 2 2 1 [[[1], [0]], [[0], [0]]] = [[[1], [1]], [[1], [1]]]"
    unfolding numer1_spec dft2d_plane by simp
  moreover have "map_sum id loc_numer1
     (l0_init dft2d \<lparr>shape = [2, 2, 1], items = [[[1], [0]], [[0], [0]]]\<rparr> lam)
     = Inr [[[1], [1]], [[0], [0]]]"
    by (simp only: numer1_code dft2d_column_one dft2d_column_zero)
  ultimately show ?thesis using numer1_code by blast
qed




subsection \<open>The converter on kernels of any shape\<close>

text \<open>
  For a target with H and W at least 2, the converter returns a result exactly on the
  kernels of shape (1, 2) and of shape (2, n) with n at least 1.
\<close>

lemma fxypsf_to_otf_succeeds_iff:
  assumes "2 \<le> H" "2 \<le> W"
  shows "(\<exists>otf. fxypsf_to_otf fft2d psf (H, W) = Inr otf) \<longleftrightarrow>
           (length psf = 1 \<and> length (psf ! 0) = 2) \<or>
           (length psf = 2 \<and> psf ! 0 \<noteq> [] \<and> psf ! 1 \<noteq> [])"
proof -
  have pad: "(\<exists>p. zero_pad_fxypsf psf (H, W) = Inr p) \<longleftrightarrow>
           (length psf = 1 \<and> length (psf ! 0) = 2) \<or>
           (length psf = 2 \<and> psf ! 0 \<noteq> [] \<and> psf ! 1 \<noteq> [])"
  proof (cases "length psf = 1")
    case True
    then show ?thesis using assms
      by (auto simp: zero_pad_fxypsf_def sparse_tensor_def sparse_to_dense_def)
  next
    case False
    show ?thesis
    proof (cases "length psf = 2")
      case True
      then obtain a b where psf: "psf = [a, b]"
        by (cases psf; cases "tl psf") auto
      show ?thesis using assms
        by (auto simp: psf zero_pad_fxypsf_def sparse_tensor_def sparse_to_dense_def)
    next
      case False
      with \<open>length psf \<noteq> 1\<close> show ?thesis
        by (simp add: zero_pad_fxypsf_def)
    qed
  qed
  have "(\<exists>otf. fxypsf_to_otf fft2d psf (H, W) = Inr otf) \<longleftrightarrow>
        (\<exists>p. zero_pad_fxypsf psf (H, W) = Inr p)"
    by (auto simp: fxypsf_to_otf_def split: sum.splits)
  with pad show ?thesis by simp
qed







text \<open>
  C10 (the claim: in an iteration in which no pixel has \<open>t[i,j] < lambda / beta\<close> the
  masking step is still defined and completes, leaving \<open>h\<close> and \<open>v\<close> equal to the
  finite differences). With no pixel below the threshold the index list handed to
  \<open>tf.SparseTensor\<close> is empty and the constructor raises ValueError: on the 2 x 2 x 1
  checkerboard every pixel has \<open>t = 2\<close>, above the threshold 0.5 of the first
  iteration, and both the gradient subproblem and the whole call raise.
\<close>

theorem hv_subproblem_empty_mask_raises:
  "compute_t (compute_h [[[0], [1]], [[1], [0]]] 2) (compute_v [[[0], [1]], [[1], [0]]] 2)
     = [[2, 2], [2, 2]]
   \<and> hv_subproblem (2 / 100) (4 / 100) 2 2 1 [[[0], [1]], [[1], [0]]] = Inl ValueError
   \<and> l0_image_smoothing fft2d
        \<lparr>shape = [2, 2, 1], items = [[[0], [255]], [[255], [0]]]\<rparr> (2 / 100) 2 100000
        = Inl ValueError"
  using t_checkerboard hv_checkerboard smoothing_checkerboard by blast

end
